theory Spec2Isabelle
  imports Complex_Main
begin

section \<open>Values and backing stores\<close>

text \<open>
  A JavaScript value of type \<open>V | undefined\<close>. Results of the wrapped function, values
  held by a store and the answer of \<open>get\<close> all live in this type, so a stored
  \<open>undefined\<close> and the \<open>undefined\<close> that \<open>get\<close> gives for a missing key are the same
  value, as in the source.
\<close>

datatype 'v jsval = Undefined | Val 'v

text \<open>
  The interface \<open>MapLike<K, V>\<close>: four operations over the contents \<open>'s\<close> of the store.
  \<open>get\<close> and \<open>has\<close> read the contents, \<open>set\<close> and \<open>delete\<close> give the new contents
  (\<open>delete\<close> also its boolean). The field for \<open>set\<close> is primed, the plain name being
  the HOL constant on lists.
\<close>

record ('s, 'k, 'v) MapLike =
  get :: "'s \<Rightarrow> 'k \<Rightarrow> 'v jsval"
  has :: "'s \<Rightarrow> 'k \<Rightarrow> bool"
  set' :: "'s \<Rightarrow> 'k \<Rightarrow> 'v jsval \<Rightarrow> 's"
  delete :: "'s \<Rightarrow> 'k \<Rightarrow> bool \<times> 's"

text \<open>
  The default store \<open>new Map<K, V>()\<close>: its contents are a finite map from keys to
  stored values; \<open>get\<close> of a missing key is \<open>undefined\<close>, \<open>delete\<close> reports whether the
  key was there.
\<close>

definition js_Map :: "('k \<rightharpoonup> 'v jsval, 'k, 'v) MapLike" where
  "js_Map =
     \<lparr> get = (\<lambda>m k. case m k of None \<Rightarrow> Undefined | Some v \<Rightarrow> v),
       has = (\<lambda>m k. m k \<noteq> None),
       set' = (\<lambda>m k v. m(k \<mapsto> v)),
       delete = (\<lambda>m k. (m k \<noteq> None, m(k := None))) \<rparr>"

section \<open>The memoizer \<open>cached\<close>\<close>

text \<open>
  The state a wrapper works on: the contents of its store \<open>cache\<close>, and \<open>invoked\<close>, the
  arguments with which \<open>fn\<close> has been called so far, oldest first. The second field
  records the calls of \<open>fn\<close> as the effect they are; the source has no such variable.
\<close>

record ('s, 'a) memo =
  cache :: 's
  invoked :: "'a list"

text \<open>
  \<open>cached(fn, cache)\<close> applied to \<open>arg\<close>. \<open>fn arg\<close> is what the call of \<open>fn\<close> does at this
  moment: \<open>Inl e\<close> when it throws \<open>e\<close>, \<open>Inr r\<close> when it returns \<open>r\<close>; the wrapper has no
  handler, so a throw leaves it at once, before \<open>cache.set\<close>.
\<close>

definition cached ::
  "('a \<Rightarrow> 'e + 'r jsval) \<Rightarrow> ('s, 'a, 'r) MapLike \<Rightarrow> 'a \<Rightarrow>
   ('s, 'a, 'z) memo_scheme \<Rightarrow> ('e + 'r jsval) \<times> ('s, 'a, 'z) memo_scheme" where
  "cached fn c arg st =
     (let h = has c (cache st) arg in
      if h then (Inr (get c (cache st) arg), st)
      else (case fn arg of
              Inl e \<Rightarrow> (Inl e, st\<lparr>invoked := invoked st @ [arg]\<rparr>)
            | Inr r \<Rightarrow>
                (Inr r, st\<lparr>invoked := invoked st @ [arg],
                           cache := set' c (cache st) arg r\<rparr>)))"

section \<open>The mtime-gated memoizer \<open>cachedMtime\<close>\<close>

text \<open>
  What the wrapper reads from outside at one call: \<open>performance.now()\<close> and the answer of
  \<open>statSync\<close> for each path (\<open>Inl e\<close> when it throws). Of the \<open>Stats\<close> object only
  \<open>mtime\<close> is read, here as the number \<open>Number(mtime)\<close>, the date in milliseconds.
  Numbers are exact reals. A JavaScript number is a double, so the model follows the
  source only where the doubles compute \<open>now - cm[1] > statFreqMs\<close> as the reals do:
  the non-finite values and the rounding of a sum of numbers far apart in size (a
  \<open>statFreqMs\<close> of \<open>Infinity\<close> or \<open>1e20\<close>) are not modelled, and nothing below is
  stated about them.
\<close>

record Stats =
  mtime :: real

record 'e env =
  performance_now :: real
  statSync :: "string \<Rightarrow> 'e + Stats"

text \<open>
  Modelled from the spec: \<open>catcher\<close> of the package \<open>@isaacs/catcher\<close>, which is not part
  of this repository. It runs a function and gives its value, or \<open>undefined\<close> when the
  function throws (the spec: a failure of the query becomes the outcome "unknown").
\<close>

definition catcher :: "'e + 'x \<Rightarrow> 'x jsval" where
  "catcher r = (case r of Inl e \<Rightarrow> Undefined | Inr x \<Rightarrow> Val x)"

text \<open>
  The state of a gated wrapper: the result store \<open>cache\<close> and the calls of \<open>fn\<close> as
  above, the store \<open>mtimeCache\<close> of pairs \<open>[mtime, lastStatTime]\<close>, and \<open>statted\<close>, the
  paths given to \<open>statSync\<close> so far, oldest first (again the record of an effect).
\<close>

record ('c, 'm) gated = "('c, string) memo" +
  mtimeCache :: 'm
  statted :: "string list"

text \<open>
  \<open>getMtime\<close> is a closure inside \<open>cachedMtime\<close>; what it captures (\<open>statFreqMs\<close>, the
  two stores) is given here as arguments. In \<open>mtimeCache.get(path) || [0, -1 * statFreqMs]\<close>
  a stored pair is an array and so truthy: the sentinel is taken exactly when \<open>get\<close> gives
  \<open>undefined\<close>. \<open>typeof m === 'number'\<close> holds exactly when \<open>catcher\<close> gave a value.
\<close>

definition getMtime ::
  "real \<Rightarrow> ('c, string, 'r) MapLike \<Rightarrow> ('m, string, real \<times> real) MapLike \<Rightarrow>
   'e env \<Rightarrow> string \<Rightarrow> ('c, 'm) gated \<Rightarrow> real jsval \<times> ('c, 'm) gated" where
  "getMtime statFreqMs c mc env path st =
     (let now = performance_now env;
          cm = (case get mc (mtimeCache st) path of
                  Undefined \<Rightarrow> (0, -1 * statFreqMs)
                | Val e \<Rightarrow> e)
      in if now - snd cm > statFreqMs then
           (let m = catcher (map_sum id mtime (statSync env path));
                st1 = st\<lparr>statted := statted st @ [path]\<rparr>
            in case m of
                 Val n \<Rightarrow>
                   (let st2 = (if n \<noteq> fst cm
                               then st1\<lparr>cache := snd (delete c (cache st1) path)\<rparr>
                               else st1)
                    in (Val n,
                        st2\<lparr>mtimeCache := set' mc (mtimeCache st2) path (Val (n, now))\<rparr>))
               | Undefined \<Rightarrow>
                   (let st2 = st1\<lparr>mtimeCache := snd (delete mc (mtimeCache st1) path)\<rparr>
                    in (Undefined, st2\<lparr>cache := snd (delete c (cache st2) path)\<rparr>)))
         else (Val (fst cm), st))"


section \<open>Runs of a gated wrapper\<close>




text \<open>
  The modification value on disk as the wrapper would read it: \<open>Val m\<close>, or \<open>Undefined\<close>
  when the query fails.
\<close>

definition on_disk :: "'e env \<Rightarrow> string \<Rightarrow> real jsval" where
  "on_disk env path = catcher (map_sum id mtime (statSync env path))"




section \<open>Concrete inputs\<close>

text \<open>The function of the first test, \<open>(a: number) => a * a\<close>, and one that always throws.\<close>

definition square :: "int \<Rightarrow> string + int jsval" where
  "square a = Inr (Val (a * a))"

definition failing :: "'a \<Rightarrow> string + 'r jsval" where
  "failing a = Inl ''ENOENT''"

text \<open>The state of a wrapper made with no store given: new, empty maps.\<close>

definition new_memo :: "('k \<rightharpoonup> 'v jsval, 'a) memo" where
  "new_memo = \<lparr> cache = Map.empty, invoked = [] \<rparr>"

type_synonym 'r default_gated =
  "(string \<rightharpoonup> 'r jsval, string \<rightharpoonup> (real \<times> real) jsval) gated"

definition new_gated :: "'r default_gated" where
  "new_gated = \<lparr> cache = Map.empty, invoked = [], mtimeCache = Map.empty, statted = [] \<rparr>"

text \<open>
  The world at clock reading \<open>t\<close> in which every path has modification value \<open>m\<close>, and
  the one in which no path exists.
\<close>

definition world :: "real \<Rightarrow> real \<Rightarrow> string env" where
  "world t m = \<lparr> performance_now = t, statSync = (\<lambda>p. Inr \<lparr> mtime = m \<rparr>) \<rparr>"

definition world_without :: "real \<Rightarrow> string env" where
  "world_without t = \<lparr> performance_now = t, statSync = (\<lambda>p. Inl ''ENOENT'') \<rparr>"




section \<open>Facts about the default store\<close>

lemma js_Map_simps [simp]:
  "get js_Map m k = (case m k of None \<Rightarrow> Undefined | Some v \<Rightarrow> v)"
  "has js_Map m k = (m k \<noteq> None)"
  "set' js_Map m k v = m(k \<mapsto> v)"
  "delete js_Map m k = (m k \<noteq> None, m(k := None))"
  by (simp_all add: js_Map_def)

section \<open>The memoizer: hits, misses and failures\<close>

text \<open>
  Claim C9. The wrapper decides on \<open>has\<close> alone. For every store and every \<open>fn\<close>: when
  \<open>has\<close> reports the key, the call returns what \<open>get\<close> gives, whatever that is, and
  nothing else happens (\<open>fn\<close> is not called, the store is as before); when \<open>has\<close> does
  not report it, \<open>fn\<close> is called, whatever \<open>get\<close> would have given. In particular, with
  the default store, a key stored with the value \<open>undefined\<close> is served as \<open>undefined\<close>
  and is not computed again.
\<close>

theorem cached_presence_check:
  "(has c (cache st) a \<longrightarrow> cached fn c a st = (Inr (get c (cache st) a), st)) \<and>
   (\<not> has c (cache st) a \<longrightarrow> invoked (snd (cached fn c a st)) = invoked st @ [a]) \<and>
   cached fn' js_Map a' (st'\<lparr>cache := set' js_Map (cache st') a' Undefined\<rparr>) =
     (Inr Undefined, st'\<lparr>cache := set' js_Map (cache st') a' Undefined\<rparr>)"
  by (simp add: cached_def split: sum.split)

theorem cached_presence_check_witness:
  "has js_Map [2 \<mapsto> Undefined] (2::int) \<and>
   cached square js_Map 2 (new_memo\<lparr>cache := [2 \<mapsto> Undefined]\<rparr>) =
     (Inr Undefined, new_memo\<lparr>cache := [2 \<mapsto> Undefined]\<rparr>) \<and>
   \<not> has js_Map [2 \<mapsto> (Undefined :: int jsval)] (3::int) \<and>
   invoked (snd (cached square js_Map 3 (new_memo\<lparr>cache := [2 \<mapsto> Undefined]\<rparr>))) = [3]"
  using cached_presence_check
      [of js_Map "new_memo\<lparr>cache := [2 \<mapsto> Undefined]\<rparr>" 2 square square 2 new_memo]
    cached_presence_check
      [of js_Map "new_memo\<lparr>cache := [2 \<mapsto> Undefined]\<rparr>" 3 square square 2 new_memo]
  by (simp add: new_memo_def)

text \<open>
  Claim C5. For every store: a call of the wrapper that calls \<open>fn\<close> (the key is not
  reported by \<open>has\<close>) and in which \<open>fn\<close> throws \<open>e\<close> ends with the same throw \<open>e\<close>, and
  the contents of the store are what they were; \<open>fn\<close> was called once.
\<close>

theorem cached_fn_throws:
  assumes "\<not> has c (cache st) a" and "fn a = Inl e"
  shows "fst (cached fn c a st) = Inl e \<and>
         cache (snd (cached fn c a st)) = cache st \<and>
         invoked (snd (cached fn c a st)) = invoked st @ [a]"
  using assms by (simp add: cached_def)

theorem cached_fn_throws_witness:
  "\<not> has js_Map (cache (new_memo :: (int \<rightharpoonup> int jsval, int) memo)) 2 \<and>
   (failing :: int \<Rightarrow> string + int jsval) 2 = Inl ''ENOENT'' \<and>
   fst (cached failing js_Map 2 (new_memo :: (int \<rightharpoonup> int jsval, int) memo)) =
     (Inl ''ENOENT'' :: string + int jsval) \<and>
   cache (snd (cached (failing :: int \<Rightarrow> string + int jsval) js_Map 2
                 (new_memo :: (int \<rightharpoonup> int jsval, int) memo))) = Map.empty"
  using cached_fn_throws
      [of js_Map "new_memo :: (int \<rightharpoonup> int jsval, int) memo" 2
          "failing :: int \<Rightarrow> string + int jsval" "''ENOENT''"]
  by (simp add: new_memo_def failing_def)

text \<open>
  Claim C1, as amended. With the default store, whatever it holds before: if the first
  call of the wrapper with \<open>a\<close> returns \<open>r\<close> (so \<open>fn\<close>, if it was called, did not throw),
  then a second call with \<open>a\<close> returns \<open>r\<close> as well and does not call \<open>fn\<close>, the first
  call called \<open>fn\<close> at most once, and \<open>cache.get(a)\<close> is \<open>r\<close> after either call. \<open>fn1\<close>
  and \<open>fn2\<close> are what \<open>fn\<close> does at the first and at the second call.
\<close>

theorem cached_twice_same_arg:
  assumes "cached fn1 js_Map a st = (Inr r, st1)"
      and "cached fn2 js_Map a st1 = (res2, st2)"
  shows "res2 = Inr r \<and> get js_Map (cache st1) a = r \<and> get js_Map (cache st2) a = r \<and>
         invoked st2 = invoked st1 \<and>
         (invoked st1 = invoked st \<or> invoked st1 = invoked st @ [a])"
  using assms by (auto simp add: cached_def split: if_splits sum.splits option.splits)

theorem cached_twice_same_arg_witness:
  "cached square js_Map 2 new_memo =
     (Inr (Val 4), new_memo\<lparr>invoked := [2], cache := [2 \<mapsto> Val 4]\<rparr>) \<and>
   cached (failing :: int \<Rightarrow> string + int jsval) js_Map 2
       (new_memo\<lparr>invoked := [2], cache := [2 \<mapsto> Val 4]\<rparr>) =
     (Inr (Val 4), new_memo\<lparr>invoked := [2], cache := [2 \<mapsto> Val 4]\<rparr>)"
proof -
  let ?st1 = "new_memo\<lparr>invoked := [2::int], cache := [2 \<mapsto> Val (4::int)]\<rparr>"
  have first: "cached square js_Map 2 new_memo = (Inr (Val 4), ?st1)"
    by (simp add: cached_def square_def new_memo_def)
  obtain res2 st2 where
    second: "cached (failing :: int \<Rightarrow> string + int jsval) js_Map 2 ?st1 = (res2, st2)"
    by (cases "cached (failing :: int \<Rightarrow> string + int jsval) js_Map 2 ?st1")
  from cached_twice_same_arg [OF first second]
  have "res2 = Inr (Val 4)" and "invoked st2 = invoked ?st1"
    by simp_all
  moreover have "st2 = ?st1"
    using second by (simp add: cached_def new_memo_def)
  ultimately show ?thesis
    using first second by simp
qed

text \<open>
  The claim as the spec states it, for every \<open>fn\<close>, fails for a function that throws:
  the first call stores nothing, so the second call calls \<open>fn\<close> again, and neither call
  returns a result.
\<close>

theorem cached_twice_same_arg_counterexample:
  "fst (cached (failing :: int \<Rightarrow> string + int jsval) js_Map 2 new_memo) = Inl ''ENOENT'' \<and>
   invoked (snd (cached (failing :: int \<Rightarrow> string + int jsval) js_Map 2
                  (snd (cached (failing :: int \<Rightarrow> string + int jsval) js_Map 2 new_memo)))) =
     [2, 2]"
  by (simp add: cached_def failing_def new_memo_def)

section \<open>\<open>getMtime\<close>: the three ways through it\<close>

text \<open>
  Inside the rate-limit window nothing is read from the file system and nothing changes.
\<close>

lemma getMtime_skip:
  assumes "get mc (mtimeCache st) path = Val (M, T)" and "performance_now env - T \<le> s"
  shows "getMtime s c mc env path st = (Val M, st)"
  using assms by (simp add: getMtime_def)

text \<open>
  Outside it, the query is made: \<open>cm\<close> is the cached pair, or the sentinel pair when
  \<open>get\<close> gives \<open>undefined\<close>.
\<close>

lemma getMtime_stat_ok:
  assumes "cm = (case get mc (mtimeCache st) path of Undefined \<Rightarrow> (0, -1 * s) | Val e \<Rightarrow> e)"
      and "performance_now env - snd cm > s"
      and "statSync env path = Inr stats"
  shows "getMtime s c mc env path st =
           (Val (mtime stats),
            st\<lparr>cache := (if mtime stats \<noteq> fst cm then snd (delete c (cache st) path)
                          else cache st),
                mtimeCache :=
                  set' mc (mtimeCache st) path (Val (mtime stats, performance_now env)),
                statted := statted st @ [path]\<rparr>)"
  using assms by (simp add: getMtime_def catcher_def Let_def)

lemma getMtime_stat_error:
  assumes "cm = (case get mc (mtimeCache st) path of Undefined \<Rightarrow> (0, -1 * s) | Val e \<Rightarrow> e)"
      and "performance_now env - snd cm > s"
      and "statSync env path = Inl e"
  shows "getMtime s c mc env path st =
           (Undefined,
            st\<lparr>cache := snd (delete c (cache st) path),
                mtimeCache := snd (delete mc (mtimeCache st) path),
                statted := statted st @ [path]\<rparr>)"
  using assms by (simp add: getMtime_def catcher_def Let_def)

lemma getMtime_queried_iff:
  "statted (snd (getMtime s c mc env path st)) = statted st @ [path] \<longleftrightarrow>
   performance_now env -
     snd (case get mc (mtimeCache st) path of Undefined \<Rightarrow> (0, -1 * s) | Val e \<Rightarrow> e) > s"
  by (simp add: getMtime_def Let_def split: jsval.split)


text \<open>
  Claim C3. With the default stores: when \<open>getMtime(path)\<close> makes the file system query
  and \<open>statSync\<close> succeeds with modification value \<open>m\<close>, then \<open>getMtime\<close> returns \<open>m\<close>,
  the Modification Cache holds \<open>(m, now)\<close> for the path afterwards, and the Result Cache
  has no entry for the path afterwards if \<open>m\<close> differs from the cached modification value
  \<open>M\<close>, or from \<open>0\<close> when the Modification Cache gave nothing for the path.
\<close>

theorem getMtime_query_succeeds:
  assumes "statted (snd (getMtime s js_Map js_Map env path st)) = statted st @ [path]"
      and "statSync env path = Inr stats"
  shows "fst (getMtime s js_Map js_Map env path st) = Val (mtime stats) \<and>
         get js_Map (mtimeCache (snd (getMtime s js_Map js_Map env path st))) path =
           Val (mtime stats, performance_now env) \<and>
         (get js_Map (mtimeCache st) path = Undefined \<and> mtime stats \<noteq> 0 \<longrightarrow>
            \<not> has js_Map (cache (snd (getMtime s js_Map js_Map env path st))) path) \<and>
         (get js_Map (mtimeCache st) path = Val (M, T) \<and> mtime stats \<noteq> M \<longrightarrow>
            \<not> has js_Map (cache (snd (getMtime s js_Map js_Map env path st))) path)"
proof -
  let ?cm = "case get js_Map (mtimeCache st) path of Undefined \<Rightarrow> (0, -1 * s) | Val e \<Rightarrow> e"
  from assms(1) have "performance_now env - snd ?cm > s"
    by (simp only: getMtime_queried_iff)
  from getMtime_stat_ok [OF refl this assms(2), of js_Map]
  have eq: "getMtime s js_Map js_Map env path st =
           (Val (mtime stats),
            st\<lparr>cache := (if mtime stats \<noteq> fst ?cm then snd (delete js_Map (cache st) path)
                          else cache st),
                mtimeCache :=
                  set' js_Map (mtimeCache st) path (Val (mtime stats, performance_now env)),
                statted := statted st @ [path]\<rparr>)" .
  show ?thesis
    unfolding eq by (cases "mtimeCache st path") simp_all
qed

theorem getMtime_query_succeeds_witness:
  "statted (snd (getMtime 10 js_Map js_Map (world 100 5) ''file''
       ((new_gated :: string default_gated)
          \<lparr>cache := [''file'' \<mapsto> Val ''contents'']\<rparr>))) = [''file''] \<and>
   statSync (world 100 5) ''file'' = Inr \<lparr>mtime = 5\<rparr> \<and>
   fst (getMtime 10 js_Map js_Map (world 100 5) ''file''
       ((new_gated :: string default_gated)
          \<lparr>cache := [''file'' \<mapsto> Val ''contents'']\<rparr>)) = Val 5 \<and>
   \<not> has js_Map (cache (snd (getMtime 10 js_Map js_Map (world 100 5) ''file''
       ((new_gated :: string default_gated)
          \<lparr>cache := [''file'' \<mapsto> Val ''contents'']\<rparr>)))) ''file'' \<and>
   get js_Map (mtimeCache (snd (getMtime 10 js_Map js_Map (world 100 5) ''file''
       ((new_gated :: string default_gated)
          \<lparr>cache := [''file'' \<mapsto> Val ''contents''],
           mtimeCache := [''file'' \<mapsto> Val (3, 0)]\<rparr>)))) ''file'' = Val (5, 100) \<and>
   \<not> has js_Map (cache (snd (getMtime 10 js_Map js_Map (world 100 5) ''file''
       ((new_gated :: string default_gated)
          \<lparr>cache := [''file'' \<mapsto> Val ''contents''],
           mtimeCache := [''file'' \<mapsto> Val (3, 0)]\<rparr>)))) ''file''"
proof -
  let ?st = "(new_gated :: string default_gated)\<lparr>cache := [''file'' \<mapsto> Val ''contents'']\<rparr>"
  let ?st' = "(new_gated :: string default_gated)
          \<lparr>cache := [''file'' \<mapsto> Val ''contents''],
           mtimeCache := [''file'' \<mapsto> Val (3, 0)]\<rparr>"
  have q: "statted (snd (getMtime 10 js_Map js_Map (world 100 5) ''file'' ?st)) =
           statted ?st @ [''file'']"
    and q': "statted (snd (getMtime 10 js_Map js_Map (world 100 5) ''file'' ?st')) =
           statted ?st' @ [''file'']"
    by (simp_all add: getMtime_def new_gated_def world_def catcher_def)
  have ok: "statSync (world 100 5) ''file'' = Inr \<lparr>mtime = 5\<rparr>"
    by (simp add: world_def)
  have a: "get js_Map (mtimeCache ?st) ''file'' = Undefined"
    and e: "get js_Map (mtimeCache ?st') ''file'' = Val (3, 0)"
    by (simp_all add: new_gated_def)
  from a getMtime_query_succeeds [OF q ok, of 0 0]
  have first: "fst (getMtime 10 js_Map js_Map (world 100 5) ''file'' ?st) = Val 5 \<and>
               \<not> has js_Map (cache (snd (getMtime 10 js_Map js_Map (world 100 5) ''file'' ?st)))
                  ''file''"
    by simp
  from e getMtime_query_succeeds [OF q' ok, of 3 0]
  have second: "get js_Map (mtimeCache (snd (getMtime 10 js_Map js_Map (world 100 5) ''file'' ?st')))
                  ''file'' = Val (5, performance_now (world 100 5)) \<and>
                \<not> has js_Map (cache (snd (getMtime 10 js_Map js_Map (world 100 5) ''file'' ?st')))
                  ''file''"
    by simp
  from q ok first second show ?thesis
    by (simp add: new_gated_def world_def)
qed

text \<open>
  Claim C4. With the default stores: when \<open>getMtime(path)\<close> makes the file system query
  and \<open>statSync\<close> throws, then \<open>getMtime\<close> returns \<open>undefined\<close> (the throw does not leave
  \<open>getMtime\<close>), and afterwards neither the Modification Cache nor the Result Cache has
  an entry for the path.
\<close>

theorem getMtime_query_fails:
  assumes "statted (snd (getMtime s js_Map js_Map env path st)) = statted st @ [path]"
      and "statSync env path = Inl e"
  shows "fst (getMtime s js_Map js_Map env path st) = Undefined \<and>
         \<not> has js_Map (mtimeCache (snd (getMtime s js_Map js_Map env path st))) path \<and>
         \<not> has js_Map (cache (snd (getMtime s js_Map js_Map env path st))) path"
proof -
  let ?cm = "case get js_Map (mtimeCache st) path of Undefined \<Rightarrow> (0, -1 * s) | Val e \<Rightarrow> e"
  from assms(1) have "performance_now env - snd ?cm > s"
    by (simp only: getMtime_queried_iff)
  from getMtime_stat_error [OF refl this assms(2), of js_Map] show ?thesis
    by simp
qed

theorem getMtime_query_fails_witness:
  "statted (snd (getMtime 10 js_Map js_Map (world_without 100) ''file''
       ((new_gated :: string default_gated)
          \<lparr>cache := [''file'' \<mapsto> Val ''contents''],
           mtimeCache := [''file'' \<mapsto> Val (5, 0)]\<rparr>))) = [''file''] \<and>
   statSync (world_without 100) ''file'' = Inl ''ENOENT'' \<and>
   fst (getMtime 10 js_Map js_Map (world_without 100) ''file''
       ((new_gated :: string default_gated)
          \<lparr>cache := [''file'' \<mapsto> Val ''contents''],
           mtimeCache := [''file'' \<mapsto> Val (5, 0)]\<rparr>)) = Undefined \<and>
   \<not> has js_Map (mtimeCache (snd (getMtime 10 js_Map js_Map (world_without 100) ''file''
       ((new_gated :: string default_gated)
          \<lparr>cache := [''file'' \<mapsto> Val ''contents''],
           mtimeCache := [''file'' \<mapsto> Val (5, 0)]\<rparr>)))) ''file'' \<and>
   \<not> has js_Map (cache (snd (getMtime 10 js_Map js_Map (world_without 100) ''file''
       ((new_gated :: string default_gated)
          \<lparr>cache := [''file'' \<mapsto> Val ''contents''],
           mtimeCache := [''file'' \<mapsto> Val (5, 0)]\<rparr>)))) ''file''"
proof -
  let ?st = "(new_gated :: string default_gated)
          \<lparr>cache := [''file'' \<mapsto> Val ''contents''],
           mtimeCache := [''file'' \<mapsto> Val (5, 0)]\<rparr>"
  have q: "statted (snd (getMtime 10 js_Map js_Map (world_without 100) ''file'' ?st)) =
           statted ?st @ [''file'']"
    by (simp add: getMtime_def new_gated_def world_without_def catcher_def)
  have ko: "statSync (world_without 100) ''file'' = Inl ''ENOENT''"
    by (simp add: world_without_def)
  from getMtime_query_fails [OF q ko] q ko show ?thesis
    by (simp add: new_gated_def)
qed

lemma getMtime_statted_cases:
  "statted (snd (getMtime s c mc env path st)) = statted st \<or>
   statted (snd (getMtime s c mc env path st)) = statted st @ [path]"
  by (simp add: getMtime_def Let_def split: jsval.split)

text \<open>
  Claim C6, as amended. For every store: a call of \<open>getMtime\<close> on a path whose
  Modification Cache entry is \<open>(M, T)\<close>, made at a clock reading \<open>now\<close> with
  \<open>now - T \<le> statFreqMs\<close>, returns \<open>M\<close>, makes no file system query and changes nothing.
  Consequently, with the default Modification Cache, of two calls for the same path no
  more than \<open>statFreqMs\<close> apart, the first of them at a moment when \<open>statSync\<close> succeeds
  (with value \<open>m\<close>), at most one makes a query: if the first call made it, the second
  returns \<open>m\<close>, makes no query and changes nothing.
\<close>

theorem getMtime_within_window:
  "(get mc (mtimeCache st) path = Val (M, T) \<and> performance_now env - T \<le> s \<longrightarrow>
      getMtime s c mc env path st = (Val M, st)) \<and>
   (statSync env_a path = Inr stats \<and> performance_now env_b - performance_now env_a \<le> s \<longrightarrow>
      length (statted (snd (getMtime s c' js_Map env_b path
                (snd (getMtime s c' js_Map env_a path st_a))))) \<le> Suc (length (statted st_a)) \<and>
      (statted (snd (getMtime s c' js_Map env_a path st_a)) \<noteq> statted st_a \<longrightarrow>
         getMtime s c' js_Map env_b path (snd (getMtime s c' js_Map env_a path st_a)) =
           (Val (mtime stats), snd (getMtime s c' js_Map env_a path st_a))))"
proof (intro conjI impI)
  assume "get mc (mtimeCache st) path = Val (M, T) \<and> performance_now env - T \<le> s"
  then show "getMtime s c mc env path st = (Val M, st)"
    by (simp add: getMtime_skip)
next
  let ?cm = "case get js_Map (mtimeCache st_a) path of Undefined \<Rightarrow> (0, -1 * s) | Val e \<Rightarrow> e"
  let ?st1 = "snd (getMtime s c' js_Map env_a path st_a)"
  assume a: "statSync env_a path = Inr stats \<and>
             performance_now env_b - performance_now env_a \<le> s"
  have again: "getMtime s c' js_Map env_b path ?st1 = (Val (mtime stats), ?st1)"
    if q: "statted ?st1 \<noteq> statted st_a"
  proof -
    from q getMtime_statted_cases [of s c' js_Map env_a path st_a]
    have "statted ?st1 = statted st_a @ [path]"
      by blast
    then have "performance_now env_a - snd ?cm > s"
      by (simp only: getMtime_queried_iff)
    from getMtime_stat_ok [OF refl this, of stats c'] a
    have "get js_Map (mtimeCache ?st1) path = Val (mtime stats, performance_now env_a)"
      by simp
    moreover from a have "performance_now env_b - performance_now env_a \<le> s"
      by simp
    ultimately show ?thesis
      by (rule getMtime_skip)
  qed
  show "length (statted (snd (getMtime s c' js_Map env_b path ?st1))) \<le> Suc (length (statted st_a))"
  proof (cases "statted ?st1 = statted st_a")
    case True
    with getMtime_statted_cases [of s c' js_Map env_b path ?st1] show ?thesis
      by auto
  next
    case False
    with again getMtime_statted_cases [of s c' js_Map env_a path st_a] show ?thesis
      by auto
  qed
  show "getMtime s c' js_Map env_b path ?st1 = (Val (mtime stats), ?st1)"
    if "statted ?st1 \<noteq> statted st_a"
    using that by (rule again)
qed

theorem getMtime_within_window_witness:
  "statSync (world 100 5) ''file'' = Inr \<lparr>mtime = 5\<rparr> \<and>
   performance_now (world 105 7) - performance_now (world 100 5) \<le> 10 \<and>
   statted (snd (getMtime 10 js_Map js_Map (world 100 5) ''file''
       (new_gated :: string default_gated))) = [''file''] \<and>
   getMtime 10 js_Map js_Map (world 105 7) ''file''
       (snd (getMtime 10 js_Map js_Map (world 100 5) ''file''
               (new_gated :: string default_gated))) =
     (Val 5, snd (getMtime 10 js_Map js_Map (world 100 5) ''file'' new_gated)) \<and>
   getMtime 10 js_Map js_Map (world 8 7) ''file''
       ((new_gated :: string default_gated)\<lparr>mtimeCache := [''file'' \<mapsto> Val (5, 0)]\<rparr>) =
     (Val 5, new_gated\<lparr>mtimeCache := [''file'' \<mapsto> Val (5, 0)]\<rparr>)"
proof -
  let ?st_a = "new_gated :: string default_gated"
  let ?st1 = "snd (getMtime 10 js_Map js_Map (world 100 5) ''file'' ?st_a)"
  let ?seeded = "?st_a\<lparr>mtimeCache := [''file'' \<mapsto> Val (5, 0)]\<rparr>"
  have q: "statted ?st1 = [''file'']" and q0: "statted ?st_a = []"
    by (simp_all add: getMtime_def new_gated_def world_def catcher_def)
  have ok: "statSync (world 100 5) ''file'' = Inr \<lparr>mtime = 5\<rparr>"
    and near: "performance_now (world 105 7) - performance_now (world 100 5) \<le> 10"
    and inside: "performance_now (world 8 7) - 0 \<le> 10"
    by (simp_all add: world_def)
  have e: "get js_Map (mtimeCache ?seeded) ''file'' = Val (5, 0)"
    by simp
  note inst = getMtime_within_window
      [where mc = js_Map and c = js_Map and st = ?seeded and path = "''file''" and
         M = 5 and T = 0 and env = "world 8 7" and s = 10 and c' = js_Map and
         env_a = "world 100 5" and stats = "\<lparr>mtime = 5\<rparr>" and env_b = "world 105 7" and
         st_a = ?st_a]
  from inst e inside have one: "getMtime 10 js_Map js_Map (world 8 7) ''file'' ?seeded =
                               (Val 5, ?seeded)"
    by blast
  from q q0 have "statted ?st1 \<noteq> statted ?st_a"
    by simp
  with inst ok near
  have two: "getMtime 10 js_Map js_Map (world 105 7) ''file'' ?st1 = (Val (mtime \<lparr>mtime = 5\<rparr>), ?st1)"
    by blast
  from ok near q one two show ?thesis
    by simp
qed

text \<open>
  The consequence as the spec states it, for any two calls no more than \<open>statFreqMs\<close>
  apart, fails when the first query fails: the failure deletes the Modification Cache
  entry, so the next call queries again. Here the path has the entry \<open>(5, 0)\<close>, the file
  is gone, and the calls at clock readings 100 and 105 with \<open>statFreqMs = 10\<close> both
  query the file system.
\<close>

theorem getMtime_within_window_counterexample:
  "(105::real) - 100 \<le> 10 \<and>
   statted (snd (getMtime 10 js_Map js_Map (world_without 105) ''file''
     (snd (getMtime 10 js_Map js_Map (world_without 100) ''file''
        ((new_gated :: string default_gated)
           \<lparr>mtimeCache := [''file'' \<mapsto> Val (5, 0)]\<rparr>))))) = [''file'', ''file'']"
  by (simp add: getMtime_def world_without_def new_gated_def catcher_def)

text \<open>
  Claim C10. With the default stores, for a path \<open>P\<close> that has an entry in the Result
  Cache, and a call \<open>getMtime(P)\<close> that makes the file system query: when the
  Modification Cache has no entry for \<open>P\<close>, the Result Cache entry is still there
  afterwards exactly when the value on disk is \<open>0\<close> (any other value, and a failed
  query, delete it); when the Modification Cache has the entry \<open>(M, T)\<close>, it is still
  there exactly when the value on disk is \<open>M\<close>.
\<close>

theorem getMtime_preseeded_result:
  "(has js_Map (cache st) P \<and> \<not> has js_Map (mtimeCache st) P \<and>
    statted (snd (getMtime s js_Map js_Map env P st)) = statted st @ [P] \<longrightarrow>
      (has js_Map (cache (snd (getMtime s js_Map js_Map env P st))) P \<longleftrightarrow>
         on_disk env P = Val 0)) \<and>
   (has js_Map (cache st) P \<and> get js_Map (mtimeCache st) P = Val (M, T) \<and>
    statted (snd (getMtime s js_Map js_Map env P st)) = statted st @ [P] \<longrightarrow>
      (has js_Map (cache (snd (getMtime s js_Map js_Map env P st))) P \<longleftrightarrow>
         on_disk env P = Val M))"
  by (auto simp add: getMtime_def on_disk_def catcher_def Let_def
           split: jsval.splits sum.splits option.splits if_splits)

theorem getMtime_preseeded_result_witness:
  "has js_Map (cache ((new_gated :: string default_gated)
       \<lparr>cache := [''file'' \<mapsto> Val ''seeded'']\<rparr>)) ''file'' \<and>
   \<not> has js_Map (mtimeCache ((new_gated :: string default_gated)
       \<lparr>cache := [''file'' \<mapsto> Val ''seeded'']\<rparr>)) ''file'' \<and>
   statted (snd (getMtime 10 js_Map js_Map (world 100 5) ''file''
       ((new_gated :: string default_gated)\<lparr>cache := [''file'' \<mapsto> Val ''seeded'']\<rparr>))) =
     [''file''] \<and>
   \<not> has js_Map (cache (snd (getMtime 10 js_Map js_Map (world 100 5) ''file''
       ((new_gated :: string default_gated)\<lparr>cache := [''file'' \<mapsto> Val ''seeded'']\<rparr>))))
     ''file'' \<and>
   has js_Map (cache (snd (getMtime 10 js_Map js_Map (world 100 0) ''file''
       ((new_gated :: string default_gated)\<lparr>cache := [''file'' \<mapsto> Val ''seeded'']\<rparr>))))
     ''file'' \<and>
   has js_Map (cache (snd (getMtime 10 js_Map js_Map (world 100 5) ''file''
       ((new_gated :: string default_gated)
          \<lparr>cache := [''file'' \<mapsto> Val ''seeded''],
           mtimeCache := [''file'' \<mapsto> Val (5, 0)]\<rparr>)))) ''file''"
proof -
  let ?st = "(new_gated :: string default_gated)\<lparr>cache := [''file'' \<mapsto> Val ''seeded'']\<rparr>"
  let ?st' = "(new_gated :: string default_gated)
          \<lparr>cache := [''file'' \<mapsto> Val ''seeded''],
           mtimeCache := [''file'' \<mapsto> Val (5, 0)]\<rparr>"
  have h: "has js_Map (cache ?st) ''file''" and n: "\<not> has js_Map (mtimeCache ?st) ''file''"
    by (simp_all add: new_gated_def)
  have h': "has js_Map (cache ?st') ''file''"
    and e': "get js_Map (mtimeCache ?st') ''file'' = Val (5, 0)"
    by simp_all
  have q5: "statted (snd (getMtime 10 js_Map js_Map (world 100 5) ''file'' ?st)) =
            statted ?st @ [''file'']"
    and q0: "statted (snd (getMtime 10 js_Map js_Map (world 100 0) ''file'' ?st)) =
            statted ?st @ [''file'']"
    and q': "statted (snd (getMtime 10 js_Map js_Map (world 100 5) ''file'' ?st')) =
            statted ?st' @ [''file'']"
    by (simp_all add: getMtime_def new_gated_def world_def catcher_def)
  have d5: "on_disk (world 100 5) ''file'' = Val 5"
    and d0: "on_disk (world 100 0) ''file'' = Val 0"
    by (simp_all add: on_disk_def world_def catcher_def)
  from h n q5 d5
    getMtime_preseeded_result
      [where st = ?st and P = "''file''" and s = 10 and env = "world 100 5"]
  have gone: "\<not> has js_Map
                  (cache (snd (getMtime 10 js_Map js_Map (world 100 5) ''file'' ?st))) ''file''"
    by simp
  from h n q0 d0
    getMtime_preseeded_result
      [where st = ?st and P = "''file''" and s = 10 and env = "world 100 0"]
  have kept0: "has js_Map
                 (cache (snd (getMtime 10 js_Map js_Map (world 100 0) ''file'' ?st))) ''file''"
    by blast
  from h' e' q' d5
    getMtime_preseeded_result
      [where st = ?st' and P = "''file''" and s = 10 and env = "world 100 5" and
         M = 5 and T = 0]
  have kept: "has js_Map
                (cache (snd (getMtime 10 js_Map js_Map (world 100 5) ''file'' ?st'))) ''file''"
    by blast
  from h n q5 gone kept0 kept show ?thesis
    by (simp add: new_gated_def)
qed

section \<open>The gated wrapper\<close>




section \<open>The invariant of the two caches\<close>










end
